theory Spec2Isabelle
  imports Main "HOL-Library.Multiset" "HOL-Library.AList" "HOL-Library.Char_ord"
    "HOL-Library.List_Lexorder"
begin

section \<open>Data model (the types module)\<close>

text \<open>
  \<^verbatim>\<open>BaseEntity\<close> carries the identifier and the two ISO timestamps; \<^verbatim>\<open>Job\<close>,
  \<^verbatim>\<open>Candidate\<close>, \<^verbatim>\<open>CandidateNote\<close> and \<^verbatim>\<open>CandidateTimelineEvent\<close> extend it.
  The field \<^verbatim>\<open>id\<close> is written \<open>id'\<close> and the job's \<^verbatim>\<open>type\<close> is written \<open>jtype\<close>;
  \<^verbatim>\<open>min\<close>/\<^verbatim>\<open>max\<close> of a salary range are primed as well. An order is a JavaScript
  number that holds an integer; what arithmetic on it yields is rounded as a double is
  (\<open>toDouble\<close> below).
\<close>

record base_entity =
  id' :: string
  createdAt :: string
  updatedAt :: string

datatype job_status = active | archived

datatype job_type = full_time | part_time | contract | internship

record salary_range =
  min' :: int
  max' :: int
  currency :: string

record job = base_entity +
  title :: string
  slug :: string
  description :: string
  status :: job_status
  tags :: "string list"
  order :: int
  location :: string
  jtype :: job_type
  salary :: "salary_range option"

section \<open>Persistent record store (lib/storage.ts)\<close>

text \<open>
  One localforage instance per logical table. A table is an association list from keys
  to records: \<^verbatim>\<open>getItem\<close> looks a key up, \<^verbatim>\<open>setItem\<close> overwrites the entry of an
  existing key or adds a new one, \<^verbatim>\<open>iterate\<close> visits the stored values in ascending
  order of their keys, as the IndexedDB object store behind localforage does (strings
  compare lexicographically by character code).
\<close>

type_synonym 'v table = "(string \<times> 'v) list"

definition getItem :: "'v table \<Rightarrow> string \<Rightarrow> 'v option" where
  "getItem t k = map_of t k"

definition setItem :: "string \<Rightarrow> 'v \<Rightarrow> 'v table \<Rightarrow> 'v table" where
  "setItem k v t = AList.update k v t"

definition iterate :: "'v table \<Rightarrow> 'v list" where
  "iterate t = map snd (sort_key fst t)"

text \<open>
  \<^verbatim>\<open>StorageService.getAllJobs\<close>: records with a falsy id are skipped, falsy string
  fields get their defaults (\<^verbatim>\<open>title || 'Untitled Job'\<close>, \<^verbatim>\<open>slug || id\<close>,
  \<^verbatim>\<open>createdAt || now\<close>, \<^verbatim>\<open>updatedAt || now\<close>; the defaults of \<^verbatim>\<open>description\<close> and
  \<^verbatim>\<open>location\<close> are the empty string itself, and \<^verbatim>\<open>order\<close>, \<^verbatim>\<open>tags\<close>, \<^verbatim>\<open>status\<close> and
  \<^verbatim>\<open>type\<close> are always present in a typed record), and the result is sorted by
  \<^verbatim>\<open>order || 999999\<close> with the stable array sort. The clock reading \<open>now\<close> is an
  argument.
\<close>

definition validJob :: "string \<Rightarrow> job \<Rightarrow> job" where
  "validJob now v = v\<lparr>
      title := (if title v = [] then ''Untitled Job'' else title v),
      slug := (if slug v = [] then id' v else slug v),
      createdAt := (if createdAt v = [] then now else createdAt v),
      updatedAt := (if updatedAt v = [] then now else updatedAt v)\<rparr>"

definition sortKey :: "job \<Rightarrow> int" where
  "sortKey a = (if order a = 0 then 999999 else order a)"

definition getAllJobs :: "string \<Rightarrow> job table \<Rightarrow> job list" where
  "getAllJobs now t = sort_key sortKey (map (validJob now) (filter (\<lambda>v. id' v \<noteq> []) (iterate t)))"

definition getJob :: "string \<Rightarrow> job table \<Rightarrow> job option" where
  "getJob k t = getItem t k"

definition saveJob :: "job \<Rightarrow> job table \<Rightarrow> job table" where
  "saveJob j t = setItem (id' j) j t"

definition getJobBySlug :: "string \<Rightarrow> string \<Rightarrow> job table \<Rightarrow> job option" where
  "getJobBySlug now s t = find (\<lambda>j. slug j = s) (getAllJobs now t)"

text \<open>
  Every record is written by \<^verbatim>\<open>saveJob\<close>, under its own id, and a table has one entry per
  key: the invariant of the jobs table.
\<close>

definition keyedById :: "job table \<Rightarrow> bool" where
  "keyedById t = (distinct (map fst t) \<and> list_all (\<lambda>(k, v). id' v = k) t)"

section \<open>Simulated backend (the Mirage route handlers)\<close>

text \<open>
  A handler returns either \<^verbatim>\<open>new Response(status, {}, {success: false, message})\<close> or
  the object \<^verbatim>\<open>{success: true, data}\<close>, together with the table it leaves behind.
  \<^verbatim>\<open>maybeError\<close> compares \<^verbatim>\<open>Math.random()\<close> with the error rate 0 and so never
  throws; \<^verbatim>\<open>addLatency\<close> only delays. A request body that \<^verbatim>\<open>JSON.parse\<close> rejects is
  \<open>None\<close> and lands in the handler's \<^verbatim>\<open>catch\<close>.
\<close>

datatype 'a response = Response nat string | Success 'a

text \<open>
  Numbers are IEEE doubles. \<open>toDouble n\<close> is the double nearest to the integer \<open>n\<close>: an
  integer of magnitude below \<open>2 ^ 53\<close> is a double; a larger one loses its \<open>excess\<close> low
  bits, rounded to nearest with ties to the even significand. (The sum of a finite
  double and 1 never overflows, so infinity does not occur.) The safe integers are those
  of \<^verbatim>\<open>Number.isSafeInteger\<close>.
\<close>

function excess :: "nat \<Rightarrow> nat" where
  "excess a = (if a < 2 ^ 53 then 0 else Suc (excess (a div 2)))"
  by pat_completeness auto
termination
  by (relation "measure (\<lambda>a. a)") auto

declare excess.simps [simp del]

definition toDouble :: "int \<Rightarrow> int" where
  "toDouble n =
     (let a = nat \<bar>n\<bar>; e = excess a; q = a div 2 ^ e; r = a mod 2 ^ e
      in if e = 0 then n
         else sgn n * int ((if 2 ^ e < 2 * r \<or> (2 * r = 2 ^ e \<and> odd q) then q + 1 else q)
                           * 2 ^ e))"

definition safeInteger :: "int \<Rightarrow> bool" where
  "safeInteger n = (\<bar>n\<bar> \<le> 2 ^ 53 - 1)"

record reorder_body =
  fromOrder :: int
  toOrder :: int

text \<open>
  \<^verbatim>\<open>PATCH /jobs/:id/reorder\<close>: first the callback of \<^verbatim>\<open>jobs.map\<close>, then the mapped
  list, then \<^verbatim>\<open>Promise.all(updatedJobs.map(job => StorageService.saveJob(job)))\<close>, then
  the handler. The handler does not read the path parameter.
\<close>

definition reorderJob :: "int \<Rightarrow> int \<Rightarrow> string \<Rightarrow> job \<Rightarrow> job" where
  "reorderJob f t now j =
     (if order j = f then j\<lparr>order := t, updatedAt := now\<rparr>
      else if f < t \<and> order j > f \<and> order j \<le> t
        then j\<lparr>order := toDouble (order j - 1), updatedAt := now\<rparr>
      else if f > t \<and> order j \<ge> t \<and> order j < f
        then j\<lparr>order := toDouble (order j + 1), updatedAt := now\<rparr>
      else j)"

definition updatedJobs :: "int \<Rightarrow> int \<Rightarrow> string \<Rightarrow> job list \<Rightarrow> job list" where
  "updatedJobs f t now js = map (reorderJob f t now) js"

definition saveAll :: "job list \<Rightarrow> job table \<Rightarrow> job table" where
  "saveAll js t = foldl (\<lambda>t' j. saveJob j t') t js"

definition patch_jobs_reorder ::
  "string \<Rightarrow> reorder_body option \<Rightarrow> job table \<Rightarrow> job list response \<times> job table" where
  "patch_jobs_reorder now body t =
     (case body of
        None \<Rightarrow> (Response 500 ''Failed to reorder jobs'', t)
      | Some b \<Rightarrow>
          (let jobs = getAllJobs now t in
           case find (\<lambda>j. order j = fromOrder b) jobs of
             None \<Rightarrow> (Response 400 ''Job not found'', t)
           | Some jobToMove \<Rightarrow>
               (let ujs = updatedJobs (fromOrder b) (toOrder b) now jobs
                in (Success ujs, saveAll ujs t))))"

text \<open>The optimistic projection of \<^verbatim>\<open>useReorderJobs.onMutate\<close> (hooks).\<close>

definition optimisticJob :: "int \<Rightarrow> int \<Rightarrow> job \<Rightarrow> job" where
  "optimisticJob f t j =
     (if order j = f then j\<lparr>order := t\<rparr>
      else if f < t \<and> order j > f \<and> order j \<le> t then j\<lparr>order := toDouble (order j - 1)\<rparr>
      else if f > t \<and> order j \<ge> t \<and> order j < f then j\<lparr>order := toDouble (order j + 1)\<rparr>
      else j)"

definition optimisticJobs :: "int \<Rightarrow> int \<Rightarrow> job list \<Rightarrow> job list" where
  "optimisticJobs f t js = map (optimisticJob f t) js"


text \<open>
  \<^verbatim>\<open>POST /jobs\<close>. The body is a job whose \<^verbatim>\<open>id\<close> may be missing (the empty string
  here, falsy as \<^verbatim>\<open>undefined\<close> is); \<open>rid\<close> is the string that
  \<^verbatim>\<open>Math.random().toString(36).substr(2, 9)\<close> yields. \<^verbatim>\<open>DELETE /jobs/:id\<close> archives.
\<close>

definition post_jobs ::
  "string \<Rightarrow> string \<Rightarrow> job option \<Rightarrow> job table \<Rightarrow> job response \<times> job table" where
  "post_jobs now rid body t =
     (case body of
        None \<Rightarrow> (Response 500 ''Failed to create job'', t)
      | Some jobData \<Rightarrow>
          (case getJobBySlug now (slug jobData) t of
             Some existingJob \<Rightarrow> (Response 400 ''Slug already exists'', t)
           | None \<Rightarrow>
               (let job = jobData\<lparr>id' := (if id' jobData = [] then rid else id' jobData),
                                   createdAt := now, updatedAt := now\<rparr>
                in (Success job, saveJob job t))))"

definition delete_jobs :: "string \<Rightarrow> string \<Rightarrow> job table \<Rightarrow> job response \<times> job table" where
  "delete_jobs now k t =
     (case getJob k t of
        None \<Rightarrow> (Response 404 ''Job not found'', t)
      | Some existingJob \<Rightarrow>
          (let archivedJob = existingJob\<lparr>status := archived, updatedAt := now\<rparr>
           in (Success archivedJob, saveJob archivedJob t)))"

text \<open>
  \<^verbatim>\<open>PATCH /jobs/:id\<close>. The body is a \<^verbatim>\<open>Partial<Job>\<close>: every field may be absent, and
  a spread takes a field from the body where it is present. The merged job is saved under
  its own id.
\<close>

record base_updates =
  idU :: "string option"
  createdAtU :: "string option"
  updatedAtU :: "string option"

definition orElse :: "'a option \<Rightarrow> 'a \<Rightarrow> 'a" where
  "orElse u old = (case u of Some v \<Rightarrow> v | None \<Rightarrow> old)"

definition orKeep :: "'a option \<Rightarrow> 'a option \<Rightarrow> 'a option" where
  "orKeep u old = (case u of Some v \<Rightarrow> Some v | None \<Rightarrow> old)"

record job_updates = base_updates +
  titleU :: "string option"
  slugU :: "string option"
  descriptionU :: "string option"
  statusU :: "job_status option"
  tagsU :: "string list option"
  orderU :: "int option"
  locationU :: "string option"
  jtypeU :: "job_type option"
  salaryU :: "salary_range option"

text \<open>\<^verbatim>\<open>{...job, ...updates}\<close>.\<close>

definition spreadJob :: "job \<Rightarrow> job_updates \<Rightarrow> job" where
  "spreadJob j u = \<lparr>
     id' = orElse (idU u) (id' j),
     createdAt = orElse (createdAtU u) (createdAt j),
     updatedAt = orElse (updatedAtU u) (updatedAt j),
     title = orElse (titleU u) (title j),
     slug = orElse (slugU u) (slug j),
     description = orElse (descriptionU u) (description j),
     status = orElse (statusU u) (status j),
     tags = orElse (tagsU u) (tags j),
     order = orElse (orderU u) (order j),
     location = orElse (locationU u) (location j),
     jtype = orElse (jtypeU u) (jtype j),
     salary = orKeep (salaryU u) (salary j)\<rparr>"

definition patch_jobs ::
  "string \<Rightarrow> string \<Rightarrow> job_updates option \<Rightarrow> job table \<Rightarrow> job response \<times> job table" where
  "patch_jobs now k body t =
     (case getJob k t of
        None \<Rightarrow> (Response 404 ''Job not found'', t)
      | Some existingJob \<Rightarrow>
          (case body of
             None \<Rightarrow> (Response 500 ''Failed to update job'', t)
           | Some updateData \<Rightarrow>
               (let updatedJob = (spreadJob existingJob updateData)\<lparr>updatedAt := now\<rparr>
                in (Success updatedJob, saveJob updatedJob t))))"

section \<open>Candidates\<close>

datatype stage = applied | screen | tech | offer | hired | rejected

datatype event_type = stage_change | note_added | assessment_completed | interview_scheduled

record candidate_note = base_entity +
  content :: string
  authorId :: string
  authorName :: string
  mentions :: "string list"

record timeline_event = base_entity +
  evType :: event_type
  evDescription :: string
  previousStage :: "stage option"
  newStage :: "stage option"
  metadata :: "(string \<times> string) list option"

record candidate = base_entity +
  name :: string
  email :: string
  phone :: "string option"
  resumeUrl :: "string option"
  stage :: stage
  jobId :: string
  avatar :: "string option"
  "notes" :: "candidate_note list"
  timeline :: "timeline_event list"

text \<open>\<^verbatim>\<open>StorageService.getCandidate\<close> and \<^verbatim>\<open>saveCandidate\<close>.\<close>

definition getCandidate :: "string \<Rightarrow> candidate table \<Rightarrow> candidate option" where
  "getCandidate k t = getItem t k"

definition saveCandidate :: "candidate \<Rightarrow> candidate table \<Rightarrow> candidate table" where
  "saveCandidate c t = setItem (id' c) c t"

text \<open>
  \<^verbatim>\<open>POST /candidates\<close>: the body is spread first, then \<^verbatim>\<open>id\<close>, \<^verbatim>\<open>notes\<close>,
  \<^verbatim>\<open>timeline\<close> and the timestamps are set; \<open>rid\<close> and \<open>rid2\<close> are the two random
  identifiers drawn.
\<close>

definition post_candidates ::
  "string \<Rightarrow> string \<Rightarrow> string \<Rightarrow> candidate option \<Rightarrow> candidate table
     \<Rightarrow> candidate response \<times> candidate table" where
  "post_candidates now rid rid2 body t =
     (case body of
        None \<Rightarrow> (Response 500 ''Failed to create candidate'', t)
      | Some candidateData \<Rightarrow>
          (let candidate = candidateData\<lparr>
                 id' := (if id' candidateData = [] then rid else id' candidateData),
                 notes := [],
                 timeline := [\<lparr>id' = rid2, createdAt = now, updatedAt = now,
                               evType = stage_change, evDescription = ''Applied to position'',
                               previousStage = None, newStage = Some (stage candidateData),
                               metadata = None\<rparr>],
                 createdAt := now, updatedAt := now\<rparr>
           in (Success candidate, saveCandidate candidate t)))"

text \<open>
  \<^verbatim>\<open>PATCH /candidates/:id\<close>. The body is a \<^verbatim>\<open>Partial<Candidate>\<close>: every field may be
  absent. \<^verbatim>\<open>{...existingCandidate, ...updateData}\<close> takes a field from the body where it
  is present.
\<close>

record candidate_updates = base_updates +
  nameU :: "string option"
  emailU :: "string option"
  phoneU :: "string option"
  resumeUrlU :: "string option"
  stageU :: "stage option"
  jobIdU :: "string option"
  avatarU :: "string option"
  notesU :: "candidate_note list option"
  timelineU :: "timeline_event list option"

definition spreadCandidate :: "candidate \<Rightarrow> candidate_updates \<Rightarrow> candidate" where
  "spreadCandidate c u = \<lparr>
     id' = orElse (idU u) (id' c),
     createdAt = orElse (createdAtU u) (createdAt c),
     updatedAt = orElse (updatedAtU u) (updatedAt c),
     name = orElse (nameU u) (name c),
     email = orElse (emailU u) (email c),
     phone = orKeep (phoneU u) (phone c),
     resumeUrl = orKeep (resumeUrlU u) (resumeUrl c),
     stage = orElse (stageU u) (stage c),
     jobId = orElse (jobIdU u) (jobId c),
     avatar = orKeep (avatarU u) (avatar c),
     notes = orElse (notesU u) (notes c),
     timeline = orElse (timelineU u) (timeline c)\<rparr>"

fun stageName :: "stage \<Rightarrow> string" where
  "stageName applied = ''applied''"
| "stageName screen = ''screen''"
| "stageName tech = ''tech''"
| "stageName offer = ''offer''"
| "stageName hired = ''hired''"
| "stageName rejected = ''rejected''"

definition stageChangeEvent :: "string \<Rightarrow> string \<Rightarrow> stage \<Rightarrow> stage \<Rightarrow> timeline_event" where
  "stageChangeEvent now rid prev new = \<lparr>id' = rid, createdAt = now, updatedAt = now,
     evType = stage_change, evDescription = ''Moved to '' @ stageName new @ '' stage'',
     previousStage = Some prev, newStage = Some new, metadata = None\<rparr>"

definition patch_candidates ::
  "string \<Rightarrow> string \<Rightarrow> string \<Rightarrow> candidate_updates option \<Rightarrow> candidate table
     \<Rightarrow> candidate response \<times> candidate table" where
  "patch_candidates now rid k body t =
     (case getCandidate k t of
        None \<Rightarrow> (Response 404 ''Candidate not found'', t)
      | Some existingCandidate \<Rightarrow>
          (case body of
             None \<Rightarrow> (Response 500 ''Failed to update candidate'', t)
           | Some updateData \<Rightarrow>
               (let tl = (case stageU updateData of
                            Some s \<Rightarrow>
                              if s \<noteq> stage existingCandidate
                              then timeline existingCandidate
                                   @ [stageChangeEvent now rid (stage existingCandidate) s]
                              else timeline existingCandidate
                          | None \<Rightarrow> timeline existingCandidate);
                    updatedCandidate = (spreadCandidate existingCandidate updateData)
                                         \<lparr>timeline := tl, updatedAt := now\<rparr>
                in (Success updatedCandidate, saveCandidate updatedCandidate t))))"

text \<open>
  A sequence of requests to the same path, each with its own clock reading, random
  identifier and body, run one after the other on the table.
\<close>

record patch_call =
  callNow :: string
  callRid :: string
  callBody :: candidate_updates

fun patch_all :: "string \<Rightarrow> patch_call list \<Rightarrow> candidate table \<Rightarrow> candidate table" where
  "patch_all k [] t = t"
| "patch_all k (c # cs) t =
     patch_all k cs (snd (patch_candidates (callNow c) (callRid c) k (Some (callBody c)) t))"

section \<open>Client API layer (api/services.ts)\<close>

text \<open>
  What a \<^verbatim>\<open>catch\<close> can receive: an \<^verbatim>\<open>ApiError\<close> (message, optional status, optional
  payload), or any other thrown object, of which \<^verbatim>\<open>handleApiError\<close> reads the message,
  an optional \<^verbatim>\<open>response\<close> (status and optional payload) and whether \<^verbatim>\<open>request\<close> is
  set. Of a payload only its optional \<^verbatim>\<open>message\<close> is read. A plain \<^verbatim>\<open>Error\<close> with message
  \<open>m\<close> is \<open>Thrown m None False\<close>.
\<close>

type_synonym payload = "string option"

datatype thrown =
    ApiError string "nat option" "payload option"
  | Thrown string "(nat \<times> payload option) option" bool

definition orDefault :: "string \<Rightarrow> string \<Rightarrow> string" where
  "orDefault s d = (if s = [] then d else s)"

fun handleApiError :: "thrown \<Rightarrow> thrown" where
  "handleApiError (ApiError m st d) = ApiError m st d"
| "handleApiError (Thrown m (Some (st, d)) rq) =
     ApiError (case d of Some (Some msg) \<Rightarrow> orDefault msg ''An error occurred''
                       | _ \<Rightarrow> ''An error occurred'') (Some st) d"
| "handleApiError (Thrown m None rq) =
     (if rq then ApiError ''Network error - no response received'' None None
      else ApiError (orDefault m ''An unexpected error occurred'') None None)"

text \<open>
  \<^verbatim>\<open>apiCall\<close>. \<^verbatim>\<open>fetch\<close> either rejects (a network failure, with a message) or yields a
  response with a status, whose JSON body has an optional \<^verbatim>\<open>message\<close> and the data. A
  response that is not ok is turned into \<^verbatim>\<open>new Error(data.message || `HTTP error!
  status: ${response.status}`)\<close>; the \<^verbatim>\<open>catch\<close> logs and rethrows.
\<close>

datatype 'a fetched = Rejected string | Responded nat "string option" 'a

definition digit :: "nat \<Rightarrow> char" where
  "digit n = ''0123456789'' ! (n mod 10)"

function decimal :: "nat \<Rightarrow> string" where
  "decimal n = (if n < 10 then [digit n] else decimal (n div 10) @ [digit n])"
  by pat_completeness auto
termination
  by (relation "measure (\<lambda>n. n)") auto

declare decimal.simps [simp del]

definition ok :: "nat \<Rightarrow> bool" where
  "ok st = (200 \<le> st \<and> st \<le> 299)"

definition apiCall :: "'a fetched \<Rightarrow> thrown + 'a" where
  "apiCall r =
     (case r of
        Rejected m \<Rightarrow> Inl (Thrown m None False)
      | Responded st msg d \<Rightarrow>
          if \<not> ok st
          then Inl (Thrown (orDefault (case msg of Some m \<Rightarrow> m | None \<Rightarrow> [])
                                      (''HTTP error! status: '' @ decimal st)) None False)
          else Inr d)"

text \<open>
  \<^verbatim>\<open>withRetry\<close>. \<open>fn i\<close> is the outcome of the call made in iteration \<open>i\<close>. The result is
  what the promise settles with, and the delays passed to \<^verbatim>\<open>setTimeout\<close>, in order; the
  number of calls made is one more than the number of delays. The \<^verbatim>\<open>throw\<close> after the
  loop is reached only when the loop body never runs.
\<close>

fun stopsRetry :: "thrown \<Rightarrow> bool" where
  "stopsRetry (ApiError m (Some st) d) = (st \<noteq> 0 \<and> st < 500)"
| "stopsRetry _ = False"

function withRetryLoop ::
  "(nat \<Rightarrow> thrown + 'a) \<Rightarrow> nat \<Rightarrow> nat \<Rightarrow> thrown option \<Rightarrow> nat \<Rightarrow> (thrown + 'a) \<times> nat list" where
  "withRetryLoop fn maxRetries delay lastError i =
     (if i \<le> maxRetries then
        (case fn i of
           Inr v \<Rightarrow> (Inr v, [])
         | Inl error \<Rightarrow>
             if i = maxRetries then (Inl (handleApiError error), [])
             else if stopsRetry error then (Inl error, [])
             else (case withRetryLoop fn maxRetries delay (Some error) (i + 1) of
                     (r, waits) \<Rightarrow> (r, delay * 2 ^ i # waits)))
      else (case lastError of
              Some error \<Rightarrow> (Inl (handleApiError error), [])
            | None \<Rightarrow> (Inl (Thrown ''TypeError'' None False), [])))"
  by pat_completeness auto
termination
  by (relation "measure (\<lambda>(fn, maxRetries, delay, lastError, i). Suc maxRetries - i)") auto

declare withRetryLoop.simps [simp del]

definition withRetry :: "(nat \<Rightarrow> thrown + 'a) \<Rightarrow> nat \<Rightarrow> nat \<Rightarrow> (thrown + 'a) \<times> nat list" where
  "withRetry fn maxRetries delay = withRetryLoop fn maxRetries delay None 0"

section \<open>Synchronous UI store (store/index.ts)\<close>

text \<open>
  \<^verbatim>\<open>Math.ceil(a / b)\<close> on counts: a number of pages, or \<^verbatim>\<open>Infinity\<close> or \<^verbatim>\<open>NaN\<close> when the
  page size is 0.
\<close>

datatype pages = Pages nat | Infinity | NaN

definition ceilDiv :: "nat \<Rightarrow> nat \<Rightarrow> pages" where
  "ceilDiv a b = (if b = 0 then (if a = 0 then NaN else Infinity) else Pages ((a + b - 1) div b))"

record pagination =
  page :: nat
  pageSize :: nat
  total :: nat
  totalPages :: pages

record 'a paginated_response = pagination +
  data :: "'a list"

record pagination_update =
  pageU :: "nat option"
  pageSizeU :: "nat option"
  totalU :: "nat option"
  totalPagesU :: "pages option"

record loading_state =
  isLoading :: bool
  error :: "string option"

datatype sort_field = by_title | by_createdAt | by_order

datatype sort_direction = asc | desc

record job_filters =
  jfSearch :: string
  jfStatus :: "job_status option"
  jfTags :: "string list"
  jfSort :: sort_field
  jfSortDirection :: sort_direction

record candidate_filters =
  cfSearch :: string
  cfStage :: "stage option"
  cfJobId :: string

record 'f store_base =
  loading :: loading_state
  filters :: 'f
  pagination :: pagination

record jobs_state = "job_filters store_base" +
  jobs :: "job list"
  currentJob :: "job option"

record candidates_state = "candidate_filters store_base" +
  candidates :: "candidate list"
  currentCandidate :: "candidate option"

definition setJobs :: "job list \<Rightarrow> jobs_state \<Rightarrow> jobs_state" where
  "setJobs js s = s\<lparr>jobs := js\<rparr>"

definition addJob :: "job \<Rightarrow> jobs_state \<Rightarrow> jobs_state" where
  "addJob j s = s\<lparr>jobs := jobs s @ [j]\<rparr>"

definition updateJob :: "string \<Rightarrow> job_updates \<Rightarrow> jobs_state \<Rightarrow> jobs_state" where
  "updateJob k updates s = s\<lparr>
     jobs := map (\<lambda>job. if id' job = k then spreadJob job updates else job) (jobs s),
     currentJob := (case currentJob s of
                      Some cur \<Rightarrow> if id' cur = k then Some (spreadJob cur updates) else Some cur
                    | None \<Rightarrow> None)\<rparr>"

definition removeJob :: "string \<Rightarrow> jobs_state \<Rightarrow> jobs_state" where
  "removeJob k s = s\<lparr>
     jobs := filter (\<lambda>job. id' job \<noteq> k) (jobs s),
     currentJob := (case currentJob s of
                      Some cur \<Rightarrow> if id' cur = k then None else Some cur
                    | None \<Rightarrow> None)\<rparr>"

definition setCandidates :: "candidate list \<Rightarrow> candidates_state \<Rightarrow> candidates_state" where
  "setCandidates cs s = s\<lparr>candidates := cs\<rparr>"

definition addCandidate :: "candidate \<Rightarrow> candidates_state \<Rightarrow> candidates_state" where
  "addCandidate c s = s\<lparr>candidates := candidates s @ [c]\<rparr>"

text \<open>\<^verbatim>\<open>setPagination\<close> of either store: \<^verbatim>\<open>{...state.pagination, ...pagination}\<close>.\<close>

definition setPagination ::
  "pagination_update \<Rightarrow> ('f, 'z) store_base_scheme \<Rightarrow> ('f, 'z) store_base_scheme" where
  "setPagination p s = s\<lparr>pagination := \<lparr>
     page = orElse (pageU p) (page (pagination s)),
     pageSize = orElse (pageSizeU p) (pageSize (pagination s)),
     total = orElse (totalU p) (total (pagination s)),
     totalPages = orElse (totalPagesU p) (totalPages (pagination s))\<rparr>\<rparr>"

section \<open>Query cache and hooks (the hooks module)\<close>

text \<open>
  The effect of \<^verbatim>\<open>useJobs\<close> that runs when the list query has data: the jobs of the store
  that the server result does not have (by id) are kept after the server's jobs, and the
  total counts them. The effect of \<^verbatim>\<open>useCandidates\<close> writes the server result as it is.
\<close>

definition useJobs_effect :: "job paginated_response option \<Rightarrow> jobs_state \<Rightarrow> jobs_state" where
  "useJobs_effect queryData s =
     (case queryData of
        None \<Rightarrow> s
      | Some d \<Rightarrow>
          (let serverJobs = data d;
               currentJobs = jobs s;
               optimistic = filter (\<lambda>job. find (\<lambda>sj. id' sj = id' job) serverJobs = None)
                              currentJobs;
               mergedJobs = serverJobs @ optimistic
           in setPagination
                \<lparr>pageU = Some (page d), pageSizeU = Some (pageSize d),
                 totalU = Some (total d + length optimistic),
                 totalPagesU = Some (ceilDiv (total d + length optimistic) (pageSize d))\<rparr>
                (setJobs mergedJobs s)))"

definition useCandidates_effect ::
  "candidate paginated_response option \<Rightarrow> candidates_state \<Rightarrow> candidates_state" where
  "useCandidates_effect queryData s =
     (case queryData of
        None \<Rightarrow> s
      | Some d \<Rightarrow>
          setPagination
            \<lparr>pageU = Some (page d), pageSizeU = Some (pageSize d),
             totalU = Some (total d), totalPagesU = Some (totalPages d)\<rparr>
            (setCandidates (data d) s))"

text \<open>
  The part of the query cache the job mutations touch: the entry under the key
  \<^verbatim>\<open>['jobs']\<close>, the entries under \<^verbatim>\<open>['job', id]\<close> (an updater applied to a missing entry
  leaves a partial job there, so the entries are partial jobs), and whether the jobs
  queries have been invalidated (\<^verbatim>\<open>cancelQueries\<close> changes none of them). The client
  state is the jobs store and this cache; the toasts go to the separate notification
  store and are left out.
\<close>

record query_cache =
  jobsQuery :: "job paginated_response option"
  jobQuery :: "(string \<times> job_updates) list"
  jobsInvalidated :: bool

record client_state =
  jobsStore :: jobs_state
  queryCache :: query_cache

definition mergeUpdates :: "job_updates option \<Rightarrow> job_updates \<Rightarrow> job_updates" where
  "mergeUpdates old u =
     (case old of
        None \<Rightarrow> u
      | Some p \<Rightarrow> \<lparr>
          idU = orKeep (idU u) (idU p),
          createdAtU = orKeep (createdAtU u) (createdAtU p),
          updatedAtU = orKeep (updatedAtU u) (updatedAtU p),
          titleU = orKeep (titleU u) (titleU p),
          slugU = orKeep (slugU u) (slugU p),
          descriptionU = orKeep (descriptionU u) (descriptionU p),
          statusU = orKeep (statusU u) (statusU p),
          tagsU = orKeep (tagsU u) (tagsU p),
          orderU = orKeep (orderU u) (orderU p),
          locationU = orKeep (locationU u) (locationU p),
          jtypeU = orKeep (jtypeU u) (jtypeU p),
          salaryU = orKeep (salaryU u) (salaryU p)\<rparr>)"

record update_context =
  previousJobs :: "job paginated_response option"
  previousJob :: "job_updates option"

text \<open>
  \<^verbatim>\<open>useUpdateJob\<close>: \<^verbatim>\<open>onMutate\<close> snapshots the two cache entries, applies the update to the
  store and to the \<^verbatim>\<open>['job', id]\<close> entry; \<^verbatim>\<open>onError\<close> writes the snapshots that exist back
  to the cache; \<^verbatim>\<open>onSettled\<close> invalidates the jobs queries. A mutation whose
  \<^verbatim>\<open>mutationFn\<close> rejects runs \<^verbatim>\<open>onMutate\<close>, \<^verbatim>\<open>onError\<close> and \<^verbatim>\<open>onSettled\<close>.
\<close>

definition useUpdateJob_onMutate ::
  "string \<Rightarrow> job_updates \<Rightarrow> client_state \<Rightarrow> update_context \<times> client_state" where
  "useUpdateJob_onMutate k updates st =
     (let qc = queryCache st;
          ctx = \<lparr>previousJobs = jobsQuery qc, previousJob = map_of (jobQuery qc) k\<rparr>
      in (ctx,
          st\<lparr>jobsStore := updateJob k updates (jobsStore st),
             queryCache := qc\<lparr>jobQuery :=
               AList.update k (mergeUpdates (map_of (jobQuery qc) k) updates) (jobQuery qc)\<rparr>\<rparr>))"

definition useUpdateJob_onError :: "string \<Rightarrow> update_context \<Rightarrow> client_state \<Rightarrow> client_state" where
  "useUpdateJob_onError k ctx st =
     (let st1 = (case previousJobs ctx of
                   Some pj \<Rightarrow> st\<lparr>queryCache := (queryCache st)\<lparr>jobsQuery := Some pj\<rparr>\<rparr>
                 | None \<Rightarrow> st)
      in (case previousJob ctx of
            Some pj \<Rightarrow> st1\<lparr>queryCache := (queryCache st1)\<lparr>jobQuery :=
                          AList.update k pj (jobQuery (queryCache st1))\<rparr>\<rparr>
          | None \<Rightarrow> st1))"

definition onSettled :: "client_state \<Rightarrow> client_state" where
  "onSettled st = st\<lparr>queryCache := (queryCache st)\<lparr>jobsInvalidated := True\<rparr>\<rparr>"

definition useUpdateJob_failed :: "string \<Rightarrow> job_updates \<Rightarrow> client_state \<Rightarrow> client_state" where
  "useUpdateJob_failed k updates st =
     (case useUpdateJob_onMutate k updates st of
        (ctx, st') \<Rightarrow> onSettled (useUpdateJob_onError k ctx st'))"

text \<open>
  \<^verbatim>\<open>useReorderJobs\<close>: the context is the snapshot of the \<^verbatim>\<open>['jobs']\<close> entry; the
  optimistic jobs are computed from that entry and written to the store; \<^verbatim>\<open>onError\<close>
  writes the snapshot's jobs to the store.
\<close>

definition useReorderJobs_onMutate ::
  "int \<Rightarrow> int \<Rightarrow> client_state \<Rightarrow> job paginated_response option \<times> client_state" where
  "useReorderJobs_onMutate f t st =
     (let previous = jobsQuery (queryCache st)
      in (previous,
          (case previous of
             None \<Rightarrow> st
           | Some pj \<Rightarrow>
               (case find (\<lambda>job. order job = f) (data pj) of
                  None \<Rightarrow> st
                | Some jobToMove \<Rightarrow>
                    st\<lparr>jobsStore := setJobs (optimisticJobs f t (data pj)) (jobsStore st)\<rparr>))))"

definition useReorderJobs_onError ::
  "job paginated_response option \<Rightarrow> client_state \<Rightarrow> client_state" where
  "useReorderJobs_onError ctx st =
     (case ctx of
        None \<Rightarrow> st
      | Some pj \<Rightarrow> st\<lparr>jobsStore := setJobs (data pj) (jobsStore st)\<rparr>)"

definition useReorderJobs_failed :: "int \<Rightarrow> int \<Rightarrow> client_state \<Rightarrow> client_state" where
  "useReorderJobs_failed f t st =
     (case useReorderJobs_onMutate f t st of
        (ctx, st') \<Rightarrow> onSettled (useReorderJobs_onError ctx st'))"
section \<open>Sample data\<close>

definition now0 :: string where
  "now0 = ''2024-05-01T10:00:00.000Z''"

definition demoJob :: "string \<Rightarrow> int \<Rightarrow> job" where
  "demoJob i n = \<lparr>id' = i, createdAt = ''2024-01-01T00:00:00.000Z'',
     updatedAt = ''2024-01-01T00:00:00.000Z'', title = ''Engineer'', slug = i,
     description = [], status = active, tags = [], order = n, location = ''Remote'',
     jtype = full_time, salary = None\<rparr>"

text \<open>Jobs A, B, C at orders 0, 1, 2, and a table whose orders 0 and 5 leave a gap.\<close>

definition scenarioTable :: "job table" where
  "scenarioTable = [(''A'', demoJob ''A'' 0), (''B'', demoJob ''B'' 1), (''C'', demoJob ''C'' 2)]"

definition gapTable :: "job table" where
  "gapTable = [(''A'', demoJob ''A'' 0), (''B'', demoJob ''B'' 5)]"

definition gapResult :: "job list" where
  "gapResult = [(demoJob ''B'' 4)\<lparr>updatedAt := now0\<rparr>, (demoJob ''A'' 5)\<lparr>updatedAt := now0\<rparr>]"


definition newJobData :: job where
  "newJobData = (demoJob [] 3)\<lparr>slug := ''B''\<rparr>"

definition demoCandidate :: "string \<Rightarrow> stage \<Rightarrow> candidate" where
  "demoCandidate i s = \<lparr>id' = i, createdAt = ''2024-02-01T00:00:00.000Z'',
     updatedAt = ''2024-02-01T00:00:00.000Z'', name = ''Ada Park'',
     email = ''ada@example.com'', phone = None, resumeUrl = None, stage = s, jobId = ''A'',
     avatar = None, notes = [], timeline = []\<rparr>"

definition candTable :: "candidate table" where
  "candTable = [(''c1'', demoCandidate ''c1'' screen)]"

definition noUpdates :: candidate_updates where
  "noUpdates = \<lparr>idU = None, createdAtU = None, updatedAtU = None, nameU = None,
     emailU = None, phoneU = None, resumeUrlU = None, stageU = None, jobIdU = None,
     avatarU = None, notesU = None, timelineU = None\<rparr>"

text \<open>Screen to tech and back to screen, as the board sends it; and a body that carries an id.\<close>

definition demoCalls :: "patch_call list" where
  "demoCalls =
     [\<lparr>callNow = ''2024-05-02T09:00:00.000Z'', callRid = ''e1'',
        callBody = noUpdates\<lparr>stageU := Some tech, timelineU := Some []\<rparr>\<rparr>,
      \<lparr>callNow = ''2024-05-03T09:00:00.000Z'', callRid = ''e2'',
        callBody = noUpdates\<lparr>stageU := Some screen\<rparr>\<rparr>]"

definition rekeyCall :: patch_call where
  "rekeyCall = \<lparr>callNow = now0, callRid = ''e1'',
     callBody = noUpdates\<lparr>idU := Some ''c2'', stageU := Some tech\<rparr>\<rparr>"

text \<open>A not-found answer of the backend, as \<^verbatim>\<open>fetch\<close> delivers it on every attempt.\<close>

definition notFound :: "nat \<Rightarrow> thrown + unit" where
  "notFound i = apiCall (Responded 404 (Some ''Job not found'') ())"

definition noJobUpdates :: job_updates where
  "noJobUpdates = \<lparr>idU = None, createdAtU = None, updatedAtU = None, titleU = None,
     slugU = None, descriptionU = None, statusU = None, tagsU = None, orderU = None,
     locationU = None, jtypeU = None, salaryU = None\<rparr>"

definition retitle :: job_updates where
  "retitle = noJobUpdates\<lparr>titleU := Some ''Staff Engineer''\<rparr>"

definition jobsStore0 :: jobs_state where
  "jobsStore0 = \<lparr>loading = \<lparr>isLoading = False, error = None\<rparr>,
     filters = \<lparr>jfSearch = [], jfStatus = None, jfTags = [], jfSort = by_order,
                jfSortDirection = asc\<rparr>,
     pagination = \<lparr>page = 1, pageSize = 10, total = 1, totalPages = Pages 1\<rparr>,
     jobs = [demoJob ''A'' 0], currentJob = None\<rparr>"

definition clientState0 :: client_state where
  "clientState0 = \<lparr>jobsStore = jobsStore0,
     queryCache = \<lparr>jobsQuery = None, jobQuery = [], jobsInvalidated = False\<rparr>\<rparr>"

text \<open>
  The store after job D has been added with \<^verbatim>\<open>addJob\<close> to a store that holds the
  server's job A, and a server page with A only.
\<close>

definition jobsStore1 :: jobs_state where
  "jobsStore1 = addJob (demoJob ''D'' 3) jobsStore0"

definition serverPage :: "job paginated_response" where
  "serverPage = \<lparr>page = 1, pageSize = 10, total = 1, totalPages = Pages 1,
     data = [demoJob ''A'' 0]\<rparr>"

definition candidatesStore0 :: candidates_state where
  "candidatesStore0 = \<lparr>loading = \<lparr>isLoading = False, error = None\<rparr>,
     filters = \<lparr>cfSearch = [], cfStage = None, cfJobId = []\<rparr>,
     pagination = \<lparr>page = 1, pageSize = 50, total = 1, totalPages = Pages 1\<rparr>,
     candidates = [demoCandidate ''c1'' screen], currentCandidate = None\<rparr>"

text \<open>Two jobs at the doubles \<open>2 ^ 53\<close> and \<open>2 ^ 53 + 2\<close>, and what the move of the second
  to the position of the first leaves.\<close>

definition bigTable :: "job table" where
  "bigTable = [(''A'', demoJob ''A'' (2 ^ 53)), (''B'', demoJob ''B'' (2 ^ 53 + 2))]"

definition bigResult :: "job list" where
  "bigResult = [(demoJob ''A'' (2 ^ 53))\<lparr>updatedAt := now0\<rparr>,
                (demoJob ''B'' (2 ^ 53))\<lparr>updatedAt := now0\<rparr>]"

text \<open>
  A submitted job without a slug, the table after it has been created once, and the job
  that creation stored; a table in which a patch has moved a copy of job A under the
  empty id with the slug ghost, and a submitted job with that slug.
\<close>

definition blankSlugJob :: job where
  "blankSlugJob = (demoJob [] 0)\<lparr>slug := []\<rparr>"

definition blankTable :: "job table" where
  "blankTable = snd (post_jobs now0 ''r1'' (Some blankSlugJob) [])"

definition blankStored :: "string \<Rightarrow> job" where
  "blankStored i = blankSlugJob\<lparr>id' := i, createdAt := now0, updatedAt := now0\<rparr>"

definition ghostUpdates :: job_updates where
  "ghostUpdates = noJobUpdates\<lparr>idU := Some [], slugU := Some ''ghost''\<rparr>"

definition ghostTable :: "job table" where
  "ghostTable = snd (patch_jobs now0 ''A'' (Some ghostUpdates) scenarioTable)"

definition ghostStored :: job where
  "ghostStored = (demoJob ''A'' 0)\<lparr>id' := [], slug := ''ghost'', updatedAt := now0\<rparr>"

definition ghostJobData :: job where
  "ghostJobData = (demoJob [] 3)\<lparr>slug := ''ghost''\<rparr>"

text \<open>
  The candidates store after a candidate has been added to it with \<^verbatim>\<open>addCandidate\<close>, and
  a server page that has candidate c1 only. A second page of jobs (job B, of 2 jobs in
  all, page size 1).
\<close>

definition candidatesStore1 :: candidates_state where
  "candidatesStore1 = addCandidate (demoCandidate ''c9'' applied) candidatesStore0"

definition candidatesPage :: "candidate paginated_response" where
  "candidatesPage = \<lparr>page = 1, pageSize = 50, total = 1, totalPages = Pages 1,
     data = [demoCandidate ''c1'' screen]\<rparr>"

definition secondPage :: "job paginated_response" where
  "secondPage = \<lparr>page = 2, pageSize = 1, total = 2, totalPages = Pages 2,
     data = [demoJob ''B'' 1]\<rparr>"
section \<open>Auxiliary functions of the proofs\<close>

text \<open>
  What the three branches of the callback do to an order value, for the proofs only.
\<close>

definition shiftOrder :: "int \<Rightarrow> int \<Rightarrow> int \<Rightarrow> int" where
  "shiftOrder f t n =
     (if n = f then t
      else if f < t \<and> n > f \<and> n \<le> t then n - 1
      else if f > t \<and> n \<ge> t \<and> n < f then n + 1
      else n)"


section \<open>Storage lemmas\<close>

lemma getItem_setItem: "getItem (setItem k v t) k' = (if k' = k then Some v else getItem t k')"
  by (simp add: getItem_def setItem_def update_conv')

lemma keys_setItem: "getItem t k = Some v' \<Longrightarrow> map fst (setItem k v t) = map fst t"
proof -
  assume "getItem t k = Some v'"
  then have "k \<in> fst ` set t"
    by (metis getItem_def map_of_eq_None_iff option.distinct(1))
  then show ?thesis by (simp add: setItem_def update_keys)
qed

lemma getJob_saveJob: "getJob k (saveJob j t) = (if k = id' j then Some j else getJob k t)"
  by (simp add: getJob_def saveJob_def getItem_setItem)

lemma getCandidate_saveCandidate:
  "getCandidate k (saveCandidate c t) = (if k = id' c then Some c else getCandidate k t)"
  by (simp add: getCandidate_def saveCandidate_def getItem_setItem)

lemma saveAll_snoc: "saveAll (js @ [j]) t = saveJob j (saveAll js t)"
  by (simp add: saveAll_def)

lemma saveAll_getJob:
  "distinct (map id' js) \<Longrightarrow> j \<in> set js \<Longrightarrow> getJob (id' j) (saveAll js t) = Some j"
proof (induction js rule: rev_induct)
  case Nil
  then show ?case by simp
next
  case (snoc x xs)
  show ?case
  proof (cases "j = x")
    case True
    then show ?thesis by (simp add: saveAll_snoc getJob_saveJob)
  next
    case False
    with snoc.prems have jx: "j \<in> set xs" by simp
    from snoc.prems have d: "distinct (map id' xs)" and nx: "id' x \<notin> id' ` set xs"
      by simp_all
    from jx nx have "id' j \<noteq> id' x" by (metis imageI)
    with snoc.IH[OF d jx] show ?thesis by (simp add: saveAll_snoc getJob_saveJob)
  qed
qed

lemma saveAll_other:
  "k \<notin> id' ` set js \<Longrightarrow> getJob k (saveAll js t) = getJob k t"
  by (induction js rule: rev_induct) (auto simp: saveAll_snoc getJob_saveJob saveAll_def)

lemma id_validJob: "id' (validJob now v) = id' v"
  by (simp add: validJob_def)

lemma keyedById_ids:
  assumes "keyedById t"
  shows "distinct (map id' (getAllJobs now t))"
proof -
  have vs: "map id' (map snd t) = map fst t"
    using assms by (induction t) (auto simp: keyedById_def)
  have "distinct (map id' (map snd t))"
    using assms by (simp only: vs keyedById_def)
  then have "distinct (map snd t)" and "inj_on id' (set (map snd t))"
    by (simp_all only: distinct_map)
  moreover have "set (iterate t) = set (map snd t)"
    by (simp add: iterate_def)
  moreover have "distinct (iterate t)"
  proof -
    have "distinct (map snd t)" by fact
    then have "distinct t" and "inj_on snd (set t)" by (simp_all only: distinct_map)
    then show ?thesis by (simp add: iterate_def distinct_map)
  qed
  ultimately have "distinct (map id' (iterate t))"
    by (simp only: distinct_map simp_thms)
  then have "distinct (map id' (filter (\<lambda>v. id' v \<noteq> []) (iterate t)))"
    by (rule distinct_map_filter)
  then have d: "distinct (map id' (map (validJob now) (filter (\<lambda>v. id' v \<noteq> []) (iterate t))))"
    by (simp add: id_validJob o_def)
  let ?ys = "map (validJob now) (filter (\<lambda>v. id' v \<noteq> []) (iterate t))"
  from d have "distinct ?ys" "inj_on id' (set ?ys)"
    by (simp_all only: distinct_map)
  then have "distinct (map id' (sort_key sortKey ?ys))"
    by (simp only: distinct_map distinct_sort set_sort simp_thms)
  then show ?thesis by (simp add: getAllJobs_def)
qed
section \<open>The reorder algorithm\<close>

lemma excess_small: "a < 2 ^ 53 \<Longrightarrow> excess a = 0"
  by (simp add: excess.simps)

text \<open>Up to \<open>2 ^ 53\<close> in magnitude every integer is a double.\<close>

lemma toDouble_exact: "\<bar>n\<bar> \<le> 2 ^ 53 \<Longrightarrow> toDouble n = n"
proof -
  assume b: "\<bar>n\<bar> \<le> 2 ^ 53"
  consider "\<bar>n\<bar> < 2 ^ 53" | "n = 2 ^ 53" | "n = - (2 ^ 53)" using b by linarith
  then show ?thesis
  proof cases
    case 1
    then have "nat \<bar>n\<bar> < 2 ^ 53" by (simp add: nat_less_iff)
    then show ?thesis by (simp add: toDouble_def excess_small Let_def)
  next
    case 2
    then show ?thesis by (simp add: toDouble_def excess.simps Let_def)
  next
    case 3
    then show ?thesis by (simp add: toDouble_def excess.simps Let_def)
  qed
qed

lemma toDouble_safe:
  assumes "safeInteger n"
  shows "toDouble (n + 1) = n + 1" and "toDouble (n - 1) = n - 1"
proof -
  from assms have "\<bar>n + 1\<bar> \<le> 2 ^ 53" and "\<bar>n - 1\<bar> \<le> 2 ^ 53"
    by (simp_all add: safeInteger_def)
  then show "toDouble (n + 1) = n + 1" and "toDouble (n - 1) = n - 1"
    by (simp_all only: toDouble_exact)
qed

text \<open>Beyond the safe integers the sum is rounded: \<open>2 ^ 53 + 1\<close> is no double.\<close>

lemma toDouble_rounds: "toDouble (2 ^ 53 + 1) = 2 ^ 53"
  by (simp add: toDouble_def excess.simps Let_def)

lemma order_reorderJob:
  "safeInteger (order j) \<Longrightarrow> order (reorderJob f t now j) = shiftOrder f t (order j)"
  by (simp add: reorderJob_def shiftOrder_def toDouble_safe)

lemma order_optimisticJob:
  "safeInteger (order j) \<Longrightarrow> order (optimisticJob f t j) = shiftOrder f t (order j)"
  by (simp add: optimisticJob_def shiftOrder_def toDouble_safe)

lemma id_reorderJob: "id' (reorderJob f t now j) = id' j"
  by (simp add: reorderJob_def)

lemma map_id_updatedJobs: "map id' (updatedJobs f t now js) = map id' js"
  by (simp add: updatedJobs_def id_reorderJob)

lemma inj_shiftOrder: "inj (shiftOrder f t)"
  unfolding inj_def shiftOrder_def by (auto split: if_splits)

text \<open>On the closed range between the two positions the shift is a rotation.\<close>

lemma shiftOrder_range:
  "shiftOrder f t ` {min f t..max f t} = {min f t..max f t}"
proof (rule set_eqI, rule iffI)
  fix y assume "y \<in> shiftOrder f t ` {min f t..max f t}"
  then show "y \<in> {min f t..max f t}"
    by (auto simp: shiftOrder_def split: if_splits)
next
  fix y assume y: "y \<in> {min f t..max f t}"
  define x where "x = (if y = t then f else if f < t then y + 1 else y - 1)"
  have "x \<in> {min f t..max f t}" "shiftOrder f t x = y"
    using y by (auto simp: x_def shiftOrder_def split: if_splits)
  then show "y \<in> shiftOrder f t ` {min f t..max f t}" by blast
qed

lemma shiftOrder_outside: "n \<notin> {min f t..max f t} \<Longrightarrow> shiftOrder f t n = n"
  by (auto simp: shiftOrder_def)

lemma shiftOrder_image:
  assumes "{min f t..max f t} \<subseteq> S"
  shows "shiftOrder f t ` S = S"
proof -
  let ?I = "{min f t..max f t}"
  have "S = ?I \<union> (S - ?I)" using assms by blast
  then have "shiftOrder f t ` S = shiftOrder f t ` ?I \<union> shiftOrder f t ` (S - ?I)"
    by (metis image_Un)
  also have "shiftOrder f t ` (S - ?I) = S - ?I"
    by (force simp: shiftOrder_outside)
  finally show ?thesis using assms by (simp add: shiftOrder_range Un_absorb1 Un_Diff_cancel)
qed

lemma map_order_updatedJobs:
  "list_all (\<lambda>j. safeInteger (order j)) js \<Longrightarrow>
   map order (updatedJobs f t now js) = map (shiftOrder f t) (map order js)"
  by (induction js) (simp_all add: updatedJobs_def order_reorderJob)

lemma map_order_optimisticJobs:
  "list_all (\<lambda>j. safeInteger (order j)) js \<Longrightarrow>
   map order (optimisticJobs f t js) = map (shiftOrder f t) (map order js)"
  by (induction js) (simp_all add: optimisticJobs_def order_optimisticJob)

lemma distinct_map_shiftOrder: "distinct xs \<Longrightarrow> distinct (map (shiftOrder f t) xs)"
  by (simp add: distinct_map inj_on_subset[OF inj_shiftOrder])

lemma distinct_updatedJobs:
  "list_all (\<lambda>j. safeInteger (order j)) js \<Longrightarrow> distinct (map order js) \<Longrightarrow>
   distinct (map order (updatedJobs f t now js))"
  by (simp only: map_order_updatedJobs distinct_map_shiftOrder)

lemma mset_order_updatedJobs:
  assumes s: "list_all (\<lambda>j. safeInteger (order j)) js"
    and d: "distinct (map order js)"
    and c: "{min f t..max f t} \<subseteq> order ` set js"
  shows "mset (map order (updatedJobs f t now js)) = mset (map order js)"
proof -
  have "set (map order (updatedJobs f t now js)) = shiftOrder f t ` (order ` set js)"
    by (simp add: map_order_updatedJobs[OF s] image_image)
  also have "\<dots> = order ` set js" using c by (rule shiftOrder_image)
  finally have "set (map order (updatedJobs f t now js)) = set (map order js)" by simp
  with d distinct_updatedJobs[OF s d, of f t now] show ?thesis
    by (simp only: set_eq_iff_mset_eq_distinct)
qed

lemma find_order_Some:
  "f \<in> order ` set js \<Longrightarrow> \<exists>j. find (\<lambda>j. order j = f) js = Some j"
  by (induction js) auto

lemma find_order_None:
  "f \<notin> order ` set js \<Longrightarrow> find (\<lambda>j. order j = f) js = None"
  by (induction js) auto

lemma getAllJobs_scenarioTable:
  "getAllJobs now0 scenarioTable = [demoJob ''B'' 1, demoJob ''C'' 2, demoJob ''A'' 0]"
  by (simp add: getAllJobs_def scenarioTable_def iterate_def validJob_def sortKey_def demoJob_def)

lemma getAllJobs_bigTable:
  "getAllJobs now0 bigTable = [demoJob ''A'' (2 ^ 53), demoJob ''B'' (2 ^ 53 + 2)]"
  by (simp add: getAllJobs_def bigTable_def iterate_def validJob_def sortKey_def demoJob_def)

lemma getAllJobs_gapTable:
  "getAllJobs now0 gapTable = [demoJob ''B'' 5, demoJob ''A'' 0]"
  by (simp add: getAllJobs_def gapTable_def iterate_def validJob_def sortKey_def demoJob_def)

text \<open>
  C1, as amended. Let the jobs the storage service lists have orders that are safe
  integers and pairwise different, let one of them sit at \<open>f\<close>, and let \<open>f \<noteq> to\<close>. Then
  \<^verbatim>\<open>PATCH /jobs/:id/reorder\<close> succeeds, returns and saves the same jobs (by id, in the
  same sequence) with new orders, no two of them share an order, and every job that was
  at \<open>f\<close> is at \<open>to\<close>. The orders after the move are a permutation of the orders before it
  when every integer from \<open>min f to\<close> to \<open>max f to\<close> is the order of some job. In a table
  keyed by id every returned job is afterwards the record stored under its id. For any
  three jobs a, b, c at orders 0, 1, 2 the move from 0 to 2 leaves b at 0, c at 1 and a
  at 2.
\<close>

theorem reorder_correct:
  assumes safe: "list_all (\<lambda>j. safeInteger (order j)) (getAllJobs now t)"
    and uniq: "distinct (map order (getAllJobs now t))"
    and occ: "f \<in> order ` set (getAllJobs now t)"
    and ne: "f \<noteq> to"
  shows "\<exists>ujs. patch_jobs_reorder now (Some \<lparr>fromOrder = f, toOrder = to\<rparr>) t
                 = (Success ujs, saveAll ujs t)
          \<and> map id' ujs = map id' (getAllJobs now t)
          \<and> distinct (map order ujs)
          \<and> (\<forall>i < length ujs. order (getAllJobs now t ! i) = f \<longrightarrow> order (ujs ! i) = to)
          \<and> ({min f to..max f to} \<subseteq> order ` set (getAllJobs now t)
               \<longrightarrow> mset (map order ujs) = mset (map order (getAllJobs now t)))
          \<and> (keyedById t \<longrightarrow> (\<forall>u \<in> set ujs. getJob (id' u) (saveAll ujs t) = Some u))
          \<and> (\<forall>a b c. order a = 0 \<and> order b = 1 \<and> order c = 2
               \<longrightarrow> map order (updatedJobs 0 2 now [a, b, c]) = [2, 0, 1])"
proof -
  let ?js = "getAllJobs now t"
  let ?ujs = "updatedJobs f to now ?js"
  obtain j where "find (\<lambda>j. order j = f) ?js = Some j"
    using find_order_Some[OF occ] by blast
  then have "patch_jobs_reorder now (Some \<lparr>fromOrder = f, toOrder = to\<rparr>) t
               = (Success ?ujs, saveAll ?ujs t)"
    by (simp add: patch_jobs_reorder_def Let_def)
  moreover have "map id' ?ujs = map id' ?js"
    by (rule map_id_updatedJobs)
  moreover have "distinct (map order ?ujs)"
    using safe uniq by (rule distinct_updatedJobs)
  moreover have "\<forall>i < length ?ujs. order (?js ! i) = f \<longrightarrow> order (?ujs ! i) = to"
    by (simp add: updatedJobs_def reorderJob_def)
  moreover have "{min f to..max f to} \<subseteq> order ` set ?js
               \<longrightarrow> mset (map order ?ujs) = mset (map order ?js)"
    using mset_order_updatedJobs[OF safe uniq] by blast
  moreover have "keyedById t \<longrightarrow> (\<forall>u \<in> set ?ujs. getJob (id' u) (saveAll ?ujs t) = Some u)"
  proof (intro impI ballI)
    fix u assume k: "keyedById t" and u: "u \<in> set ?ujs"
    have "distinct (map id' ?ujs)"
      using keyedById_ids[OF k, of now] by (simp only: map_id_updatedJobs)
    then show "getJob (id' u) (saveAll ?ujs t) = Some u"
      using u by (rule saveAll_getJob)
  qed
  moreover have "\<forall>a b c. order a = 0 \<and> order b = 1 \<and> order c = 2
               \<longrightarrow> map order (updatedJobs 0 2 now [a, b, c]) = [2, 0, 1]"
    by (simp add: map_order_updatedJobs shiftOrder_def safeInteger_def)
  ultimately show ?thesis by blast
qed

text \<open>
  The scenario on stored data: jobs A, B, C at orders 0, 1, 2, reorder from 0 to 2. The
  hypotheses hold, the handler answers with B at 0, C at 1 and A at 2, and these are
  the orders stored under the three ids afterwards.
\<close>

theorem reorder_correct_witness:
  "list_all (\<lambda>j. safeInteger (order j)) (getAllJobs now0 scenarioTable)
   \<and> distinct (map order (getAllJobs now0 scenarioTable))
   \<and> 0 \<in> order ` set (getAllJobs now0 scenarioTable)
   \<and> (0::int) \<noteq> 2
   \<and> {min 0 2..max 0 2} \<subseteq> order ` set (getAllJobs now0 scenarioTable)
   \<and> keyedById scenarioTable
   \<and> (\<exists>ujs. patch_jobs_reorder now0 (Some \<lparr>fromOrder = 0, toOrder = 2\<rparr>) scenarioTable
                 = (Success ujs, saveAll ujs scenarioTable)
          \<and> map id' ujs = [''B'', ''C'', ''A'']
          \<and> map order ujs = [0, 1, 2]
          \<and> distinct (map order ujs)
          \<and> mset (map order ujs) = mset (map order (getAllJobs now0 scenarioTable))
          \<and> map_option order (getJob ''A'' (saveAll ujs scenarioTable)) = Some 2
          \<and> map_option order (getJob ''B'' (saveAll ujs scenarioTable)) = Some 0
          \<and> map_option order (getJob ''C'' (saveAll ujs scenarioTable)) = Some 1)"
proof -
  have h0: "list_all (\<lambda>j. safeInteger (order j)) (getAllJobs now0 scenarioTable)"
    by (simp add: getAllJobs_scenarioTable demoJob_def safeInteger_def)
  have h1: "distinct (map order (getAllJobs now0 scenarioTable))"
    by (simp add: getAllJobs_scenarioTable demoJob_def)
  have h2: "0 \<in> order ` set (getAllJobs now0 scenarioTable)"
    by (simp add: getAllJobs_scenarioTable demoJob_def)
  have h3: "(0::int) \<noteq> 2" by simp
  have h4: "{min 0 2..max 0 2} \<subseteq> order ` set (getAllJobs now0 scenarioTable)"
  proof
    fix n :: int assume "n \<in> {min 0 2..max 0 2}"
    then have "n = 0 \<or> n = 1 \<or> n = 2" by auto
    then show "n \<in> order ` set (getAllJobs now0 scenarioTable)"
      by (auto simp: getAllJobs_scenarioTable demoJob_def)
  qed
  have h5: "keyedById scenarioTable"
    by (simp add: keyedById_def scenarioTable_def demoJob_def)
  from reorder_correct[OF h0 h1 h2 h3] obtain ujs where
    r: "patch_jobs_reorder now0 (Some \<lparr>fromOrder = 0, toOrder = 2\<rparr>) scenarioTable
          = (Success ujs, saveAll ujs scenarioTable)"
    and i: "map id' ujs = map id' (getAllJobs now0 scenarioTable)"
    and d: "distinct (map order ujs)"
    and m: "{min 0 2..max 0 2} \<subseteq> order ` set (getAllJobs now0 scenarioTable)
             \<longrightarrow> mset (map order ujs) = mset (map order (getAllJobs now0 scenarioTable))"
    and p: "keyedById scenarioTable
             \<longrightarrow> (\<forall>u \<in> set ujs. getJob (id' u) (saveAll ujs scenarioTable) = Some u)"
    by blast
  have u: "ujs = updatedJobs 0 2 now0 (getAllJobs now0 scenarioTable)"
    using r by (simp add: patch_jobs_reorder_def Let_def getAllJobs_scenarioTable demoJob_def)
  have "map order ujs = map (shiftOrder 0 2) (map order (getAllJobs now0 scenarioTable))"
    by (simp only: u map_order_updatedJobs[OF h0])
  then have o: "map order ujs = [0, 1, 2]"
    by (simp add: getAllJobs_scenarioTable shiftOrder_def demoJob_def)
  have i': "map id' ujs = [''B'', ''C'', ''A'']"
    using i by (simp add: getAllJobs_scenarioTable demoJob_def)
  have m': "mset (map order ujs) = mset (map order (getAllJobs now0 scenarioTable))"
    using m h4 by blast
  from i' o obtain b c a where abc: "ujs = [b, c, a]"
    "id' b = ''B''" "id' c = ''C''" "id' a = ''A''" "order b = 0" "order c = 1" "order a = 2"
    by (auto simp: map_eq_Cons_conv)
  from p h5 abc(1) have
    "getJob (id' a) (saveAll ujs scenarioTable) = Some a"
    "getJob (id' b) (saveAll ujs scenarioTable) = Some b"
    "getJob (id' c) (saveAll ujs scenarioTable) = Some c"
    by simp_all
  with abc have s:
    "map_option order (getJob ''A'' (saveAll ujs scenarioTable)) = Some 2"
    "map_option order (getJob ''B'' (saveAll ujs scenarioTable)) = Some 0"
    "map_option order (getJob ''C'' (saveAll ujs scenarioTable)) = Some 1"
    by simp_all
  have "\<exists>ujs. patch_jobs_reorder now0 (Some \<lparr>fromOrder = 0, toOrder = 2\<rparr>) scenarioTable
                 = (Success ujs, saveAll ujs scenarioTable)
          \<and> map id' ujs = [''B'', ''C'', ''A'']
          \<and> map order ujs = [0, 1, 2]
          \<and> distinct (map order ujs)
          \<and> mset (map order ujs) = mset (map order (getAllJobs now0 scenarioTable))
          \<and> map_option order (getJob ''A'' (saveAll ujs scenarioTable)) = Some 2
          \<and> map_option order (getJob ''B'' (saveAll ujs scenarioTable)) = Some 0
          \<and> map_option order (getJob ''C'' (saveAll ujs scenarioTable)) = Some 1"
    using r i' o d m' s by (intro exI[of _ ujs] conjI)
  with h0 h1 h2 h3 h4 h5 show ?thesis by (intro conjI)
qed

text \<open>
  The claim as stated fails in two places. Where the orders have a gap: with jobs at
  orders 0 and 5, both positions occupied, the move from 0 to 5 leaves the orders 4 and
  5, which are not the orders 0 and 5. Beyond the safe integers: with jobs at the
  distinct orders \<open>2 ^ 53\<close> and \<open>2 ^ 53 + 2\<close>, the move of the second to \<open>2 ^ 53\<close> adds 1
  to the first, which rounds back to \<open>2 ^ 53\<close>, and both jobs share that order.
\<close>

theorem reorder_permutation_counterexample:
  "distinct (map order (getAllJobs now0 gapTable))
   \<and> map order (getAllJobs now0 gapTable) = [5, 0]
   \<and> patch_jobs_reorder now0 (Some \<lparr>fromOrder = 0, toOrder = 5\<rparr>) gapTable
       = (Success gapResult, saveAll gapResult gapTable)
   \<and> map order gapResult = [4, 5]
   \<and> set (map order gapResult) \<noteq> set (map order (getAllJobs now0 gapTable))
   \<and> distinct (map order (getAllJobs now0 bigTable))
   \<and> map order (getAllJobs now0 bigTable) = [2 ^ 53, 2 ^ 53 + 2]
   \<and> patch_jobs_reorder now0 (Some \<lparr>fromOrder = 2 ^ 53 + 2, toOrder = 2 ^ 53\<rparr>) bigTable
       = (Success bigResult, saveAll bigResult bigTable)
   \<and> map order bigResult = [2 ^ 53, 2 ^ 53]
   \<and> \<not> distinct (map order bigResult)"
proof -
  have "(0::int) \<in> {5, 0}" and "(0::int) \<notin> {4, 5}" by simp_all
  then have "{4, 5} \<noteq> {5, 0::int}" by metis
  then have gap: "distinct (map order (getAllJobs now0 gapTable))
   \<and> map order (getAllJobs now0 gapTable) = [5, 0]
   \<and> patch_jobs_reorder now0 (Some \<lparr>fromOrder = 0, toOrder = 5\<rparr>) gapTable
       = (Success gapResult, saveAll gapResult gapTable)
   \<and> map order gapResult = [4, 5]
   \<and> set (map order gapResult) \<noteq> set (map order (getAllJobs now0 gapTable))"
    by (simp add: getAllJobs_gapTable patch_jobs_reorder_def Let_def updatedJobs_def
        reorderJob_def gapResult_def demoJob_def toDouble_exact)
  have tr: "toDouble 9007199254740993 = 9007199254740992"
    using toDouble_rounds by simp
  have big: "distinct (map order (getAllJobs now0 bigTable))
   \<and> map order (getAllJobs now0 bigTable) = [2 ^ 53, 2 ^ 53 + 2]
   \<and> patch_jobs_reorder now0 (Some \<lparr>fromOrder = 2 ^ 53 + 2, toOrder = 2 ^ 53\<rparr>) bigTable
       = (Success bigResult, saveAll bigResult bigTable)
   \<and> map order bigResult = [2 ^ 53, 2 ^ 53]
   \<and> \<not> distinct (map order bigResult)"
    by (simp add: getAllJobs_bigTable patch_jobs_reorder_def Let_def updatedJobs_def
        reorderJob_def bigResult_def demoJob_def tr)
  from gap big show ?thesis by blast
qed

text \<open>
  C2. On every list of jobs and every pair of positions the optimistic projection of
  \<^verbatim>\<open>useReorderJobs.onMutate\<close> and the map of the backend handler give every job the same
  order; the two results differ in \<^verbatim>\<open>updatedAt\<close> only.
\<close>

theorem optimistic_matches_backend:
  "map order (optimisticJobs f t js) = map order (updatedJobs f t now js)
   \<and> map (updatedAt_update (\<lambda>_. u)) (optimisticJobs f t js)
       = map (updatedAt_update (\<lambda>_. u)) (updatedJobs f t now js)"
  by (simp add: optimisticJobs_def updatedJobs_def optimisticJob_def reorderJob_def)

text \<open>
  Without a job at \<open>fromOrder\<close> the handler leaves the table alone and answers with
  status 400.
\<close>

lemma reorder_missing_fromOrder:
  "f \<notin> order ` set (getAllJobs now t) \<Longrightarrow>
   patch_jobs_reorder now (Some \<lparr>fromOrder = f, toOrder = to\<rparr>) t
     = (Response 400 ''Job not found'', t)"
  by (simp add: patch_jobs_reorder_def Let_def find_order_None)

text \<open>
  C8. No job of the scenario table sits at order 7. The request to move from 7 leaves the
  table as it was; the status of the answer is 400, where the claim says 404.
\<close>

theorem reorder_missing_fromOrder_status:
  "patch_jobs_reorder now0 (Some \<lparr>fromOrder = 7, toOrder = 0\<rparr>) scenarioTable
     = (Response 400 ''Job not found'', scenarioTable)"
  by (simp add: patch_jobs_reorder_def Let_def getAllJobs_scenarioTable demoJob_def)

section \<open>Creating and archiving jobs\<close>

lemma find_slug_Some:
  "j \<in> set js \<Longrightarrow> \<exists>j'. find (\<lambda>x. slug x = slug j) js = Some j'"
  by (induction js) auto

lemma find_slug_None:
  "s \<notin> slug ` set js \<Longrightarrow> find (\<lambda>x. slug x = s) js = None"
  by (induction js) auto

text \<open>
  A job that the storage service lists under the submitted slug blocks the creation.
\<close>

lemma listed_slug_rejected:
  assumes "j \<in> set (getAllJobs now t)" and "slug jobData = slug j"
  shows "post_jobs now rid (Some jobData) t = (Response 400 ''Slug already exists'', t)"
proof -
  obtain j' where "find (\<lambda>x. slug x = slug j) (getAllJobs now t) = Some j'"
    using find_slug_Some[OF assms(1)] by blast
  then show ?thesis
    by (simp add: post_jobs_def getJobBySlug_def assms(2))
qed

text \<open>A slug that no listed job has: the job is created and stored under its id.\<close>

lemma fresh_slug_created:
  assumes "slug jobData \<notin> slug ` set (getAllJobs now t)"
  shows "\<exists>job. post_jobs now rid (Some jobData) t = (Success job, saveJob job t)
           \<and> getJob (id' job) (saveJob job t) = Some job
           \<and> slug job = slug jobData \<and> createdAt job = now \<and> updatedAt job = now"
  using assms
  by (simp add: post_jobs_def getJobBySlug_def find_slug_None Let_def getJob_saveJob)

text \<open>The service lists every stored record that has an id, with its defaults filled in.\<close>

lemma getAllJobs_lists:
  assumes "getJob k t = Some v" and "id' v \<noteq> []"
  shows "validJob now v \<in> set (getAllJobs now t)"
proof -
  from assms(1) have "(k, v) \<in> set t"
    by (simp add: getJob_def getItem_def map_of_SomeD)
  then have "v \<in> set (iterate t)" by (force simp: iterate_def)
  with assms(2) show ?thesis by (simp add: getAllJobs_def)
qed

text \<open>
  C7, as amended. Let a job be stored with a non-empty id and a non-empty slug. A
  \<^verbatim>\<open>POST /jobs\<close> whose body has that slug answers with status 400, and the jobs table it
  leaves is the one it started with.
\<close>

theorem duplicate_slug_rejected:
  assumes "getJob k t = Some v" and "id' v \<noteq> []" and "slug v \<noteq> []"
    and "slug jobData = slug v"
  shows "post_jobs now rid (Some jobData) t = (Response 400 ''Slug already exists'', t)"
proof -
  have "slug (validJob now v) = slug v" using assms(3) by (simp add: validJob_def)
  with assms(4) have "slug jobData = slug (validJob now v)" by simp
  with getAllJobs_lists[OF assms(1,2), of now] show ?thesis
    by (rule listed_slug_rejected)
qed

theorem duplicate_slug_rejected_witness:
  "getJob ''B'' scenarioTable = Some (demoJob ''B'' 1)
   \<and> id' (demoJob ''B'' 1) = ''B''
   \<and> slug (demoJob ''B'' 1) = ''B''
   \<and> slug newJobData = slug (demoJob ''B'' 1)
   \<and> post_jobs now0 ''r4nd0m'' (Some newJobData) scenarioTable
       = (Response 400 ''Slug already exists'', scenarioTable)"
proof -
  have h1: "getJob ''B'' scenarioTable = Some (demoJob ''B'' 1)"
    by (simp add: getJob_def getItem_def scenarioTable_def)
  have h2: "id' (demoJob ''B'' 1) = ''B''" and h3: "slug (demoJob ''B'' 1) = ''B''"
    by (simp_all add: demoJob_def)
  have h4: "slug newJobData = slug (demoJob ''B'' 1)"
    by (simp add: newJobData_def demoJob_def)
  have "id' (demoJob ''B'' 1) \<noteq> []" and "slug (demoJob ''B'' 1) \<noteq> []"
    by (simp_all add: demoJob_def)
  from duplicate_slug_rejected[OF h1 this h4] h1 h2 h3 h4 show ?thesis by simp
qed

text \<open>
  The claim as stated fails for the empty slug and for a record without id. A job
  created without a slug is stored with the empty slug and listed under its id, so a
  second job without a slug is created next to it. A patch that sets the id of job A to
  the empty string stores a record that the service does not list, so a job with that
  record's slug is created as well.
\<close>

theorem stored_slug_counterexample:
  "blankTable = [(''r1'', blankStored ''r1'')]
   \<and> slug (blankStored ''r1'') = slug blankSlugJob
   \<and> post_jobs now0 ''r2'' (Some blankSlugJob) blankTable
       = (Success (blankStored ''r2''), [(''r1'', blankStored ''r1''), (''r2'', blankStored ''r2'')])
   \<and> getJob [] ghostTable = Some ghostStored
   \<and> slug ghostStored = slug ghostJobData
   \<and> fst (post_jobs now0 ''r3'' (Some ghostJobData) ghostTable)
       = Success (ghostJobData\<lparr>id' := ''r3'', createdAt := now0, updatedAt := now0\<rparr>)
   \<and> map fst (snd (post_jobs now0 ''r3'' (Some ghostJobData) ghostTable))
       = [''A'', ''B'', ''C'', [], ''r3'']"
proof -
  have b: "blankTable = [(''r1'', blankStored ''r1'')]"
    by (simp add: blankTable_def post_jobs_def getJobBySlug_def getAllJobs_def iterate_def
        Let_def saveJob_def setItem_def blankStored_def blankSlugJob_def demoJob_def)
  have "slug (blankStored ''r1'') = slug blankSlugJob"
    by (simp add: blankStored_def)
  moreover have "post_jobs now0 ''r2'' (Some blankSlugJob) blankTable
       = (Success (blankStored ''r2''), [(''r1'', blankStored ''r1''), (''r2'', blankStored ''r2'')])"
    by (simp add: b post_jobs_def getJobBySlug_def getAllJobs_def iterate_def validJob_def
        Let_def saveJob_def setItem_def blankStored_def blankSlugJob_def demoJob_def)
  moreover have g: "ghostTable = scenarioTable @ [([], ghostStored)]"
    by (simp add: ghostTable_def patch_jobs_def getJob_def getItem_def scenarioTable_def
        Let_def saveJob_def setItem_def spreadJob_def ghostUpdates_def noJobUpdates_def
        orElse_def orKeep_def ghostStored_def demoJob_def)
  moreover have "getJob [] ghostTable = Some ghostStored"
    by (simp add: g getJob_def getItem_def scenarioTable_def)
  moreover have "slug ghostStored = slug ghostJobData"
    by (simp add: ghostStored_def ghostJobData_def)
  moreover have p: "post_jobs now0 ''r3'' (Some ghostJobData) ghostTable
       = (Success (ghostJobData\<lparr>id' := ''r3'', createdAt := now0, updatedAt := now0\<rparr>),
          ghostTable @ [(''r3'', ghostJobData\<lparr>id' := ''r3'', createdAt := now0, updatedAt := now0\<rparr>)])"
    by (simp add: g post_jobs_def getJobBySlug_def getAllJobs_def iterate_def validJob_def
        sortKey_def Let_def saveJob_def setItem_def scenarioTable_def ghostStored_def
        ghostJobData_def demoJob_def)
  moreover have "map fst (snd (post_jobs now0 ''r3'' (Some ghostJobData) ghostTable))
       = [''A'', ''B'', ''C'', [], ''r3'']"
    by (simp only: p snd_conv) (simp add: g scenarioTable_def)
  ultimately show ?thesis using b by simp
qed

text \<open>
  C9. Let job \<open>j\<close> be stored under its id \<open>k\<close>. \<^verbatim>\<open>DELETE /jobs/k\<close> succeeds; afterwards
  the record under \<open>k\<close> is \<open>j\<close> with status archived and \<^verbatim>\<open>updatedAt\<close> set to the clock
  reading, \<^verbatim>\<open>createdAt\<close> and every other field as before; the keys of the table and the
  records under the other keys are unchanged.
\<close>

theorem delete_archives:
  assumes ex: "getJob k t = Some j" and key: "id' j = k"
  shows "\<exists>j' t'. delete_jobs now k t = (Success j', t')
           \<and> getJob k t' = Some j'
           \<and> status j' = archived \<and> updatedAt j' = now \<and> createdAt j' = createdAt j
           \<and> j'\<lparr>status := status j, updatedAt := updatedAt j\<rparr> = j
           \<and> map fst t' = map fst t
           \<and> (\<forall>k'. k' \<noteq> k \<longrightarrow> getJob k' t' = getJob k' t)"
proof -
  let ?j' = "j\<lparr>status := archived, updatedAt := now\<rparr>"
  let ?t' = "saveJob ?j' t"
  have "delete_jobs now k t = (Success ?j', ?t')"
    using ex by (simp add: delete_jobs_def Let_def)
  moreover have "getJob k ?t' = Some ?j'"
    using key by (simp add: getJob_saveJob)
  moreover have "map fst ?t' = map fst t"
    using ex key unfolding saveJob_def getJob_def by (simp add: keys_setItem)
  moreover have "\<forall>k'. k' \<noteq> k \<longrightarrow> getJob k' ?t' = getJob k' t"
    using key by (simp add: getJob_saveJob)
  ultimately show ?thesis by (intro exI[of _ ?j'] exI[of _ ?t']) simp
qed

theorem delete_archives_witness:
  "getJob ''B'' scenarioTable = Some (demoJob ''B'' 1)
   \<and> id' (demoJob ''B'' 1) = ''B''
   \<and> (\<exists>j' t'. delete_jobs now0 ''B'' scenarioTable = (Success j', t')
           \<and> getJob ''B'' t' = Some j'
           \<and> j' = (demoJob ''B'' 1)\<lparr>status := archived, updatedAt := now0\<rparr>
           \<and> createdAt j' = createdAt (demoJob ''B'' 1)
           \<and> map fst t' = [''A'', ''B'', ''C'']
           \<and> getJob ''A'' t' = Some (demoJob ''A'' 0)
           \<and> getJob ''C'' t' = Some (demoJob ''C'' 2))"
proof -
  have h1: "getJob ''B'' scenarioTable = Some (demoJob ''B'' 1)"
    by (simp add: getJob_def getItem_def scenarioTable_def)
  have h2: "id' (demoJob ''B'' 1) = ''B''" by (simp add: demoJob_def)
  from delete_archives[OF h1 h2, of now0] obtain j' t' where
    r: "delete_jobs now0 ''B'' scenarioTable = (Success j', t')" "getJob ''B'' t' = Some j'"
       "createdAt j' = createdAt (demoJob ''B'' 1)" "map fst t' = map fst scenarioTable"
       "\<forall>k'. k' \<noteq> ''B'' \<longrightarrow> getJob k' t' = getJob k' scenarioTable"
    by blast
  have j': "j' = (demoJob ''B'' 1)\<lparr>status := archived, updatedAt := now0\<rparr>"
    using r(1) h1 by (simp add: delete_jobs_def Let_def)
  have a: "getJob ''A'' t' = Some (demoJob ''A'' 0)" and c: "getJob ''C'' t' = Some (demoJob ''C'' 2)"
    using r(5) by (simp_all add: getJob_def getItem_def scenarioTable_def)
  have ks: "map fst t' = [''A'', ''B'', ''C'']" using r(4) by (simp add: scenarioTable_def)
  have "\<exists>j' t'. delete_jobs now0 ''B'' scenarioTable = (Success j', t')
           \<and> getJob ''B'' t' = Some j'
           \<and> j' = (demoJob ''B'' 1)\<lparr>status := archived, updatedAt := now0\<rparr>
           \<and> createdAt j' = createdAt (demoJob ''B'' 1)
           \<and> map fst t' = [''A'', ''B'', ''C'']
           \<and> getJob ''A'' t' = Some (demoJob ''A'' 0)
           \<and> getJob ''C'' t' = Some (demoJob ''C'' 2)"
    using r(1,2,3) j' ks a c by (intro exI[of _ j'] exI[of _ t'] conjI)
  with h1 h2 show ?thesis by (intro conjI)
qed

section \<open>Candidates: creation and stage changes\<close>

text \<open>
  C10. \<^verbatim>\<open>POST /candidates\<close> with a parsed body succeeds and stores the new candidate
  under its id; whatever notes and timeline the body carried, the stored candidate has no
  notes, and its timeline is one event of type \<^verbatim>\<open>stage_change\<close> whose \<^verbatim>\<open>newStage\<close> is the
  submitted stage and whose \<^verbatim>\<open>previousStage\<close> is absent.
\<close>

theorem created_candidate_baseline:
  "\<exists>c e. post_candidates now rid rid2 (Some candidateData) t = (Success c, saveCandidate c t)
         \<and> getCandidate (id' c) (saveCandidate c t) = Some c
         \<and> notes c = [] \<and> timeline c = [e]
         \<and> evType e = stage_change \<and> newStage e = Some (stage candidateData)
         \<and> previousStage e = None"
  by (simp add: post_candidates_def Let_def getCandidate_saveCandidate)

lemma patch_step:
  assumes "getCandidate k t = Some c" "id' c = k" "stageU u = Some s" "s \<noteq> stage c"
    "idU u = None \<or> idU u = Some k"
  shows "\<exists>c'. getCandidate k (snd (patch_candidates now rid k (Some u) t)) = Some c'
          \<and> id' c' = k \<and> stage c' = s
          \<and> timeline c' = timeline c @ [stageChangeEvent now rid (stage c) s]"
  using assms
  by (auto simp: patch_candidates_def Let_def getCandidate_saveCandidate spreadCandidate_def orElse_def)

text \<open>
  C6, as amended. Let candidate \<open>c\<close> be stored under its id \<open>k\<close>, and let \<open>calls\<close> be
  requests to \<^verbatim>\<open>PATCH /candidates/k\<close> whose bodies ask for the stages \<open>ss\<close>, each different
  from the stage before it (the first from the stage of \<open>c\<close>), and carry no id other
  than \<open>k\<close>. After the requests the timeline of the candidate under \<open>k\<close> is the old
  timeline followed by one event per request, in call order (the events carry the clock
  readings of the calls), each of type \<^verbatim>\<open>stage_change\<close>, with \<^verbatim>\<open>previousStage\<close> the stage
  held before that request and \<^verbatim>\<open>newStage\<close> the stage asked for; the stage of the candidate
  is the last stage asked for.
\<close>

theorem stage_updates_timeline:
  assumes "getCandidate k t = Some c" and "id' c = k"
    and "map (\<lambda>call. stageU (callBody call)) calls = map Some ss"
    and "distinct_adj (stage c # ss)"
    and "\<forall>call \<in> set calls. idU (callBody call) = None \<or> idU (callBody call) = Some k"
  shows "\<exists>c' evs. getCandidate k (patch_all k calls t) = Some c'
          \<and> timeline c' = timeline c @ evs
          \<and> length evs = length calls
          \<and> map evType evs = replicate (length calls) stage_change
          \<and> map createdAt evs = map callNow calls
          \<and> map previousStage evs = map Some (butlast (stage c # ss))
          \<and> map newStage evs = map Some ss
          \<and> stage c' = last (stage c # ss)"
  using assms
proof (induction calls arbitrary: t c ss)
  case Nil
  then show ?case by simp
next
  case (Cons call calls)
  from Cons.prems(3) obtain s ss' where ss: "ss = s # ss'" "stageU (callBody call) = Some s"
    "map (\<lambda>call. stageU (callBody call)) calls = map Some ss'"
    by (cases ss) auto
  from Cons.prems(4) ss have ne: "s \<noteq> stage c" and adj: "distinct_adj (s # ss')"
    by auto
  let ?t1 = "snd (patch_candidates (callNow call) (callRid call) k (Some (callBody call)) t)"
  let ?e = "stageChangeEvent (callNow call) (callRid call) (stage c) s"
  from patch_step[OF Cons.prems(1,2) ss(2) ne, of "callNow call" "callRid call"] Cons.prems(5)
  obtain c1 where c1: "getCandidate k ?t1 = Some c1" "id' c1 = k" "stage c1 = s"
      "timeline c1 = timeline c @ [?e]"
    by auto
  from Cons.prems(5) have ids:
    "\<forall>call \<in> set calls. idU (callBody call) = None \<or> idU (callBody call) = Some k"
    by simp
  from Cons.IH[OF c1(1,2) ss(3) _ ids] adj c1(3)
  obtain c' evs where r: "getCandidate k (patch_all k calls ?t1) = Some c'"
      "timeline c' = timeline c1 @ evs" "length evs = length calls"
      "map evType evs = replicate (length calls) stage_change"
      "map createdAt evs = map callNow calls"
      "map previousStage evs = map Some (butlast (s # ss'))"
      "map newStage evs = map Some ss'"
      "stage c' = last (s # ss')"
    by auto
  show ?case
    apply (rule exI[of _ c'], rule exI[of _ "?e # evs"])
    using r c1 ss by (simp add: stageChangeEvent_def)
qed

text \<open>
  The board's scenario: a candidate at screen is moved to tech and back to screen. Two
  events are appended and the final stage is screen.
\<close>

theorem stage_updates_timeline_witness:
  "getCandidate ''c1'' candTable = Some (demoCandidate ''c1'' screen)
   \<and> id' (demoCandidate ''c1'' screen) = ''c1''
   \<and> map (\<lambda>call. stageU (callBody call)) demoCalls = map Some [tech, screen]
   \<and> distinct_adj (stage (demoCandidate ''c1'' screen) # [tech, screen])
   \<and> map (\<lambda>call. idU (callBody call)) demoCalls = [None, None]
   \<and> (\<exists>c' evs. getCandidate ''c1'' (patch_all ''c1'' demoCalls candTable) = Some c'
          \<and> timeline c' = timeline (demoCandidate ''c1'' screen) @ evs
          \<and> length evs = 2
          \<and> map evType evs = [stage_change, stage_change]
          \<and> map previousStage evs = [Some screen, Some tech]
          \<and> map newStage evs = [Some tech, Some screen]
          \<and> stage c' = screen)"
proof -
  let ?c = "demoCandidate ''c1'' screen"
  have h1: "getCandidate ''c1'' candTable = Some ?c"
    by (simp add: getCandidate_def getItem_def candTable_def)
  have h2: "id' ?c = ''c1''" by (simp add: demoCandidate_def)
  have h3: "map (\<lambda>call. stageU (callBody call)) demoCalls = map Some [tech, screen]"
    by (simp add: demoCalls_def noUpdates_def)
  have h4: "distinct_adj (stage ?c # [tech, screen])"
    by (simp add: demoCandidate_def)
  have h5': "map (\<lambda>call. idU (callBody call)) demoCalls = [None, None]"
    by (simp add: demoCalls_def noUpdates_def)
  have h5: "\<forall>call \<in> set demoCalls. idU (callBody call) = None \<or> idU (callBody call) = Some ''c1''"
    by (simp add: demoCalls_def noUpdates_def)
  from stage_updates_timeline[OF h1 h2 h3 h4 h5] obtain c' evs where
    r: "getCandidate ''c1'' (patch_all ''c1'' demoCalls candTable) = Some c'"
       "timeline c' = timeline ?c @ evs"
       "length evs = length demoCalls"
       "map evType evs = replicate (length demoCalls) stage_change"
       "map previousStage evs = map Some (butlast (stage ?c # [tech, screen]))"
       "map newStage evs = map Some [tech, screen]"
       "stage c' = last (stage ?c # [tech, screen])"
    by blast
  have l: "length demoCalls = 2" by (simp add: demoCalls_def)
  have "\<exists>c' evs. getCandidate ''c1'' (patch_all ''c1'' demoCalls candTable) = Some c'
          \<and> timeline c' = timeline ?c @ evs
          \<and> length evs = 2
          \<and> map evType evs = [stage_change, stage_change]
          \<and> map previousStage evs = [Some screen, Some tech]
          \<and> map newStage evs = [Some tech, Some screen]
          \<and> stage c' = screen"
    apply (rule exI[of _ c'], rule exI[of _ evs])
    using r l by (simp add: demoCandidate_def numeral_2_eq_2)
  with h1 h2 h3 h4 h5' show ?thesis by (intro conjI)
qed

text \<open>
  The claim as stated fails for a body that carries another id: the handler saves the
  merged record under that id, and the candidate under the path's id keeps its stage and
  its timeline.
\<close>

theorem stage_update_rekey_counterexample:
  "getCandidate ''c1'' candTable = Some (demoCandidate ''c1'' screen)
   \<and> stageU (callBody rekeyCall) = Some tech
   \<and> stage (demoCandidate ''c1'' screen) = screen
   \<and> getCandidate ''c1'' (patch_all ''c1'' [rekeyCall] candTable)
       = Some (demoCandidate ''c1'' screen)
   \<and> timeline (demoCandidate ''c1'' screen) = []
   \<and> map_option stage (getCandidate ''c2'' (patch_all ''c1'' [rekeyCall] candTable)) = Some tech"
  by (simp add: getCandidate_def getItem_def candTable_def rekeyCall_def noUpdates_def
      patch_candidates_def Let_def saveCandidate_def setItem_def spreadCandidate_def
      orElse_def orKeep_def demoCandidate_def)

section \<open>The retry wrapper\<close>

lemma apiCall_server_error:
  "apiCall (Responded 500 None ()) = Inl (Thrown ''HTTP error! status: 500'' None False)"
  by (simp add: apiCall_def ok_def orDefault_def decimal.simps digit_def)

lemma apiCall_ok: "apiCall (Responded 200 msg d) = Inr d"
  by (simp add: apiCall_def ok_def)

lemma apiCall_never_stops: "apiCall r = Inl e \<Longrightarrow> \<not> stopsRetry e"
  by (auto simp: apiCall_def split: fetched.splits if_splits)

lemma withRetryLoop_all_fail:
  assumes "\<forall>i. \<exists>e. fn i = Inl e \<and> \<not> stopsRetry e" and "i \<le> m"
  shows "snd (withRetryLoop fn m delay le i) = map (\<lambda>n. delay * 2 ^ n) [i..<m]"
  using assms(2)
proof (induction "m - i" arbitrary: i le)
  case 0
  then have "i = m" by simp
  moreover obtain e where "fn m = Inl e" using assms(1) by blast
  ultimately show ?case by (simp add: withRetryLoop.simps[of fn m delay le m])
next
  case (Suc d)
  then have lt: "i < m" by simp
  obtain e where e: "fn i = Inl e" "\<not> stopsRetry e" using assms(1) by blast
  have ih: "snd (withRetryLoop fn m delay (Some e) (i + 1)) = map (\<lambda>n. delay * 2 ^ n) [i + 1..<m]"
    using Suc lt by (intro Suc.hyps(1)) auto
  have "[i..<m] = i # [i + 1..<m]" using lt by (simp add: upt_conv_Cons)
  then show ?case
    using lt e ih by (auto simp add: withRetryLoop.simps[of fn m delay le i] split: prod.splits)
qed

text \<open>
  An answer that is not ok is retried to the ceiling, whatever its status: the delays are
  \<open>delay\<close>, \<open>2 * delay\<close>, ... and the call is made \<open>maxRetries + 1\<close> times.
\<close>

lemma withRetry_apiCall_failure:
  "\<not> ok st \<Longrightarrow>
   snd (withRetry (\<lambda>i. apiCall (Responded st msg d)) maxRetries delay)
     = map (\<lambda>n. delay * 2 ^ n) [0..<maxRetries]"
  unfolding withRetry_def
  by (rule withRetryLoop_all_fail) (auto simp: apiCall_def)

text \<open>An \<^verbatim>\<open>ApiError\<close> with a status below 500 does stop the loop, when \<open>fn\<close> throws one.\<close>

lemma withRetry_stops:
  "fn 0 = Inl e \<Longrightarrow> stopsRetry e \<Longrightarrow> 0 < maxRetries \<Longrightarrow>
   withRetry fn maxRetries delay = (Inl e, [])"
  by (simp add: withRetry_def withRetryLoop.simps[of fn maxRetries delay None 0])

lemma withRetry_success: "fn 0 = Inr v \<Longrightarrow> withRetry fn maxRetries delay = (Inr v, [])"
  by (simp add: withRetry_def withRetryLoop.simps[of fn maxRetries delay None 0])

text \<open>
  C5. A request that the backend answers with 404 on every attempt, under the default
  ceiling 3 and base delay 1000: the wrapper waits 1000, 2000 and 4000 ms, calls four
  times, and then rejects with an \<^verbatim>\<open>ApiError\<close> without status.
\<close>

theorem withRetry_retries_not_found:
  "withRetry notFound 3 1000 = (Inl (ApiError ''Job not found'' None None), [1000, 2000, 4000])"
  by (simp add: withRetry_def withRetryLoop.simps notFound_def apiCall_def ok_def orDefault_def)

section \<open>Merge on read\<close>

lemma find_id_None: "(find (\<lambda>sj. id' sj = k) js = None) = (k \<notin> id' ` set js)"
  by (induction js) auto

lemma useJobs_effect_jobs:
  "jobs (useJobs_effect (Some d) s) = data d @ filter (\<lambda>j. id' j \<notin> id' ` set (data d)) (jobs s)"
  by (simp add: useJobs_effect_def Let_def setPagination_def setJobs_def find_id_None)

lemma useJobs_effect_total:
  "total (pagination (useJobs_effect (Some d) s))
     = total d + length (filter (\<lambda>j. id' j \<notin> id' ` set (data d)) (jobs s))"
  by (simp add: useJobs_effect_def Let_def setPagination_def setJobs_def find_id_None orElse_def)

lemma useCandidates_effect_overwrites:
  "candidates (useCandidates_effect (Some d) s) = data d
   \<and> total (pagination (useCandidates_effect (Some d) s)) = total d"
  by (simp add: useCandidates_effect_def setPagination_def setCandidates_def orElse_def)

text \<open>
  On the jobs side the added job D stays behind the server's job A and is counted. The
  effect keeps and counts every job the page does not have, though: when the store
  holds job A of the first page and the added job D, and the second page (job B, total
  2) arrives, A stays as well and the total is 4, for one added job.
\<close>

lemma useJobs_effect_keeps_added:
  "jobs (useJobs_effect (Some serverPage) jobsStore1) = [demoJob ''A'' 0, demoJob ''D'' 3]
   \<and> total (pagination (useJobs_effect (Some serverPage) jobsStore1)) = 2"
  by (simp add: useJobs_effect_jobs useJobs_effect_total serverPage_def jobsStore1_def
      addJob_def jobsStore0_def demoJob_def)

lemma useJobs_effect_counts_stale:
  "jobs (useJobs_effect (Some secondPage) jobsStore1)
     = [demoJob ''B'' 1, demoJob ''A'' 0, demoJob ''D'' 3]
   \<and> total secondPage = 2
   \<and> total (pagination (useJobs_effect (Some secondPage) jobsStore1)) = 4"
  by (simp add: useJobs_effect_jobs useJobs_effect_total secondPage_def jobsStore1_def
      addJob_def jobsStore0_def demoJob_def)

text \<open>
  C4. Candidate c9 has been added to the candidates store with \<^verbatim>\<open>addCandidate\<close>, next to
  the server's candidate c1. The candidates list query resolves with a page that has c1
  only and reports the total 1. After the effect of \<^verbatim>\<open>useCandidates\<close> the store holds c1
  only: c9 is gone, and the total is 1, not 2.
\<close>

theorem added_candidate_lost:
  "candidates candidatesStore1 = [demoCandidate ''c1'' screen, demoCandidate ''c9'' applied]
   \<and> data candidatesPage = [demoCandidate ''c1'' screen]
   \<and> total candidatesPage = 1
   \<and> candidates (useCandidates_effect (Some candidatesPage) candidatesStore1)
       = [demoCandidate ''c1'' screen]
   \<and> total (pagination (useCandidates_effect (Some candidatesPage) candidatesStore1)) = 1"
  by (simp add: useCandidates_effect_overwrites candidatesStore1_def addCandidate_def
      candidatesStore0_def candidatesPage_def)

section \<open>Rollback\<close>

text \<open>
  What a failed mutation leaves in the store: after \<^verbatim>\<open>useUpdateJob\<close> the optimistic
  update, after \<^verbatim>\<open>useReorderJobs\<close> the jobs of the cached \<^verbatim>\<open>['jobs']\<close> entry when there
  is one.
\<close>

lemma useUpdateJob_failed_store:
  "jobsStore (useUpdateJob_failed k updates st) = updateJob k updates (jobsStore st)"
  by (simp add: useUpdateJob_failed_def useUpdateJob_onMutate_def useUpdateJob_onError_def
      onSettled_def Let_def split: option.splits)

lemma useReorderJobs_failed_store:
  "jobsQuery (queryCache st) = Some pj \<Longrightarrow>
   jobsStore (useReorderJobs_failed f t st) = setJobs (data pj) (jobsStore st)"
  by (simp add: useReorderJobs_failed_def useReorderJobs_onMutate_def useReorderJobs_onError_def
      onSettled_def Let_def setJobs_def split: option.splits)

lemma useReorderJobs_failed_store_uncached:
  "jobsQuery (queryCache st) = None \<Longrightarrow>
   jobsStore (useReorderJobs_failed f t st) = jobsStore st"
  by (simp add: useReorderJobs_failed_def useReorderJobs_onMutate_def useReorderJobs_onError_def
      onSettled_def Let_def)

text \<open>
  C3. The store holds job A with title Engineer and the cache is empty. The update of the
  title fails. After \<^verbatim>\<open>onError\<close> and \<^verbatim>\<open>onSettled\<close> the store's job A has the new title:
  the store is not in its state from before the mutation.
\<close>

theorem failed_update_not_rolled_back:
  "jobs (jobsStore clientState0) = [demoJob ''A'' 0]
   \<and> jobs (jobsStore (useUpdateJob_failed ''A'' retitle clientState0))
       = [(demoJob ''A'' 0)\<lparr>title := ''Staff Engineer''\<rparr>]
   \<and> jobsStore (useUpdateJob_failed ''A'' retitle clientState0) \<noteq> jobsStore clientState0"
proof -
  have a: "jobs (jobsStore clientState0) = [demoJob ''A'' 0]"
    by (simp add: clientState0_def jobsStore0_def)
  have b: "jobs (jobsStore (useUpdateJob_failed ''A'' retitle clientState0))
       = [(demoJob ''A'' 0)\<lparr>title := ''Staff Engineer''\<rparr>]"
    by (simp add: useUpdateJob_failed_store updateJob_def clientState0_def jobsStore0_def
        spreadJob_def retitle_def noJobUpdates_def orElse_def orKeep_def demoJob_def)
  have "(demoJob ''A'' 0)\<lparr>title := ''Staff Engineer''\<rparr> \<noteq> demoJob ''A'' 0"
    by (simp add: demoJob_def)
  with a b have "jobs (jobsStore (useUpdateJob_failed ''A'' retitle clientState0))
       \<noteq> jobs (jobsStore clientState0)" by simp
  then have "jobsStore (useUpdateJob_failed ''A'' retitle clientState0) \<noteq> jobsStore clientState0"
    by metis
  with a b show ?thesis by (intro conjI)
qed

end
